theory Spec2Isabelle
  imports Main "HOL-Library.Word"
begin

unbundle bit_operations_syntax

section \<open>The bounce service client (src/global/bounce.c)\<close>

text \<open>
  The module decides, for one recipient whose delivery failed, which peer service records
  the outcome: the address verification service, the delivery trace service, the bounce
  service (per-message log or immediate notice) or the defer service. The peers themselves
  live in other modules; here every call to one of them is an event appended to a history,
  and the status a peer answers is read from an oracle that sees the history so far and the
  call. Memory management (\<^verbatim>\<open>vstring_alloc\<close>, \<^verbatim>\<open>mystrdup\<close>, \<^verbatim>\<open>myfree\<close>) has no
  counterpart: strings are values.
\<close>

subsection \<open>Data\<close>

text \<open>C \<^verbatim>\<open>int\<close>: the flags word and every status.\<close>

type_synonym c_int = "32 word"

text \<open>
  Macros of other headers whose value matters only up to identity are symbolic: the mail
  service class, the request codes of the bounce protocol, the attribute names and the
  recipient status handed to the verification service.
\<close>

datatype mail_class = MAIL_CLASS_PRIVATE

datatype bounce_cmd = BOUNCE_CMD_APPEND | BOUNCE_CMD_FLUSH | BOUNCE_CMD_ONE

datatype rcpt_stat = DEL_RCPT_STAT_BOUNCE

datatype attr_name =
    MAIL_ATTR_NREQ | MAIL_ATTR_FLAGS | MAIL_ATTR_QUEUE | MAIL_ATTR_QUEUEID
  | MAIL_ATTR_ENCODING | MAIL_ATTR_SENDER | MAIL_ATTR_ORCPT | MAIL_ATTR_RECIP
  | MAIL_ATTR_OFFSET | MAIL_ATTR_STATUS | MAIL_ATTR_ACTION | MAIL_ATTR_WHY

text \<open>A numeric attribute carries a request code or a C \<^verbatim>\<open>int\<close>.\<close>

datatype num_val = Cmd bounce_cmd | Num c_int

datatype attr =
    ATTR_TYPE_NUM attr_name num_val
  | ATTR_TYPE_STR attr_name string
  | ATTR_TYPE_LONG attr_name int

text \<open>
  The calls that leave the module, with the arguments in the order of the C prototypes.
  A \<^verbatim>\<open>const char *\<close> that may be null (\<^verbatim>\<open>orig_rcpt\<close>) is a \<open>string option\<close>;
  \<^verbatim>\<open>long\<close> and \<^verbatim>\<open>time_t\<close> values are only passed through and are \<open>int\<close>; the
  variadic tails written out in this file are lists of strings, a caller's
  \<^verbatim>\<open>va_list\<close> is the opaque \<open>'ap\<close>.
\<close>

datatype 'ap call =
    Msg_warn string "string list"
  | Msg_info string "string list"
  | Vverify_append string "string option" string string string int string rcpt_stat string 'ap
  | Vtrace_append c_int string "string option" string string string int string string 'ap
  | Trace_append c_int string "string option" string string string int string string "string list"
  | Defer_append c_int string "string option" string int string string int string "string list"
  | Log_adhoc string "string option" string string string int string string "string list"
  | Mail_command_client mail_class string "attr list"

text \<open>
  What the module reads from its surroundings: the configuration variables of
  \<^verbatim>\<open>mail_params.h\<close>, the flag masks of \<^verbatim>\<open>bounce.h\<close> and \<^verbatim>\<open>deliver_request.h\<close>,
  the pure helpers \<^verbatim>\<open>dsn_valid\<close> and \<^verbatim>\<open>vstring_vsprintf\<close>, and the status each peer
  answers to a call made after a given history.
\<close>

record 'ap env =
  var_soft_bounce :: bool
  var_bounce_service :: string
  var_defer_service :: string
  var_trace_service :: string
  DEL_REQ_FLAG_VERIFY :: c_int
  DEL_REQ_FLAG_EXPAND :: c_int
  DEL_REQ_FLAG_RECORD :: c_int
  BOUNCE_FLAG_CLEAN :: c_int
  dsn_valid :: "string \<Rightarrow> bool"
  vstring_vsprintf :: "string \<Rightarrow> 'ap \<Rightarrow> string"
  respond :: "'ap call list \<Rightarrow> 'ap call \<Rightarrow> c_int"

subsection \<open>Effects\<close>

text \<open>A call whose status is used: the peer answers, the call joins the history.\<close>

definition invoke :: "'ap env \<Rightarrow> 'ap call \<Rightarrow> 'ap call list \<Rightarrow> c_int \<times> 'ap call list" where
  "invoke e c tr = (respond e tr c, tr @ [c])"

text \<open>A call without a result (\<^verbatim>\<open>msg_warn\<close>, \<^verbatim>\<open>msg_info\<close>, \<^verbatim>\<open>log_adhoc\<close>).\<close>

definition emit :: "'ap call \<Rightarrow> 'ap call list \<Rightarrow> 'ap call list" where
  "emit c tr = tr @ [c]"

text \<open>\<^verbatim>\<open>*dsn\<close>: the first byte of a C string, the terminating NUL when it is empty.\<close>

definition deref :: "string \<Rightarrow> char" where
  "deref s = (case s of [] \<Rightarrow> CHR 0x00 | c # _ \<Rightarrow> c)"

text \<open>
  \<^verbatim>\<open>my_dsn[0] = '4'\<close> on the private copy of the status code. The copy starts with the
  class digit wherever the module performs this store (lemma \<open>deref_working_dsn\<close> below), so
  index 0 is inside the string.
\<close>

definition set_class4 :: "string \<Rightarrow> string" where
  "set_class4 my_dsn = my_dsn[0 := CHR ''4'']"

text \<open>\<^verbatim>\<open>if (orig_rcpt == 0) orig_rcpt = "";\<close>\<close>

definition null_to_empty :: "string option \<Rightarrow> string" where
  "null_to_empty orig_rcpt = (case orig_rcpt of None \<Rightarrow> [] | Some r \<Rightarrow> r)"

subsection \<open>Requests to the bounce and defer services\<close>

text \<open>
  The three \<^verbatim>\<open>mail_command_client\<close> calls of the module, each with the attribute list
  of the source in its order: the append request of lines 269 to 280 (sent to \<open>service\<close>),
  the flush request of lines 315 to 322 and the one-recipient request of lines 409 to 422.
\<close>

definition append_request ::
  "string \<Rightarrow> c_int \<Rightarrow> string \<Rightarrow> string \<Rightarrow> string \<Rightarrow> int \<Rightarrow> string \<Rightarrow> string \<Rightarrow> string
     \<Rightarrow> 'ap call" where
  "append_request service flags id' orig_rcpt recipient offset my_dsn action why =
     Mail_command_client MAIL_CLASS_PRIVATE service
       [ATTR_TYPE_NUM MAIL_ATTR_NREQ (Cmd BOUNCE_CMD_APPEND),
        ATTR_TYPE_NUM MAIL_ATTR_FLAGS (Num flags),
        ATTR_TYPE_STR MAIL_ATTR_QUEUEID id',
        ATTR_TYPE_STR MAIL_ATTR_ORCPT orig_rcpt,
        ATTR_TYPE_STR MAIL_ATTR_RECIP recipient,
        ATTR_TYPE_LONG MAIL_ATTR_OFFSET offset,
        ATTR_TYPE_STR MAIL_ATTR_STATUS my_dsn,
        ATTR_TYPE_STR MAIL_ATTR_ACTION action,
        ATTR_TYPE_STR MAIL_ATTR_WHY why]"

definition flush_request ::
  "string \<Rightarrow> c_int \<Rightarrow> string \<Rightarrow> string \<Rightarrow> string \<Rightarrow> string \<Rightarrow> 'ap call" where
  "flush_request service flags queue id' encoding sender =
     Mail_command_client MAIL_CLASS_PRIVATE service
       [ATTR_TYPE_NUM MAIL_ATTR_NREQ (Cmd BOUNCE_CMD_FLUSH),
        ATTR_TYPE_NUM MAIL_ATTR_FLAGS (Num flags),
        ATTR_TYPE_STR MAIL_ATTR_QUEUE queue,
        ATTR_TYPE_STR MAIL_ATTR_QUEUEID id',
        ATTR_TYPE_STR MAIL_ATTR_ENCODING encoding,
        ATTR_TYPE_STR MAIL_ATTR_SENDER sender]"

definition one_request ::
  "string \<Rightarrow> c_int \<Rightarrow> string \<Rightarrow> string \<Rightarrow> string \<Rightarrow> string \<Rightarrow> string \<Rightarrow> string \<Rightarrow> int
     \<Rightarrow> string \<Rightarrow> string \<Rightarrow> string \<Rightarrow> 'ap call" where
  "one_request service flags queue id' encoding sender orig_rcpt recipient offset my_dsn
       action why =
     Mail_command_client MAIL_CLASS_PRIVATE service
       [ATTR_TYPE_NUM MAIL_ATTR_NREQ (Cmd BOUNCE_CMD_ONE),
        ATTR_TYPE_NUM MAIL_ATTR_FLAGS (Num flags),
        ATTR_TYPE_STR MAIL_ATTR_QUEUE queue,
        ATTR_TYPE_STR MAIL_ATTR_QUEUEID id',
        ATTR_TYPE_STR MAIL_ATTR_ENCODING encoding,
        ATTR_TYPE_STR MAIL_ATTR_SENDER sender,
        ATTR_TYPE_STR MAIL_ATTR_ORCPT orig_rcpt,
        ATTR_TYPE_STR MAIL_ATTR_RECIP recipient,
        ATTR_TYPE_LONG MAIL_ATTR_OFFSET offset,
        ATTR_TYPE_STR MAIL_ATTR_STATUS my_dsn,
        ATTR_TYPE_STR MAIL_ATTR_ACTION action,
        ATTR_TYPE_STR MAIL_ATTR_WHY why]"

subsection \<open>vbounce\_append\<close>

text \<open>
  Lines 226 to 300: the body of \<^verbatim>\<open>vbounce_append\<close> after the sanity check, on the
  working status code \<open>dsn\<close>.
\<close>

definition vbounce_append_checked ::
  "'ap env \<Rightarrow> c_int \<Rightarrow> string \<Rightarrow> string option \<Rightarrow> string \<Rightarrow> int \<Rightarrow> string \<Rightarrow> string \<Rightarrow> int
     \<Rightarrow> string \<Rightarrow> 'ap \<Rightarrow> 'ap call list \<Rightarrow> c_int \<times> 'ap call list" where
  "vbounce_append_checked e flags id' orig_rcpt recipient offset relay dsn entry fmt ap tr =
    (if flags AND DEL_REQ_FLAG_VERIFY e \<noteq> 0 then
       invoke e (Vverify_append id' orig_rcpt recipient relay dsn entry
                   ''undeliverable'' DEL_RCPT_STAT_BOUNCE fmt ap) tr
     else if flags AND DEL_REQ_FLAG_EXPAND e \<noteq> 0 then
       invoke e (Vtrace_append flags id' orig_rcpt recipient relay
                   dsn entry ''undeliverable'' fmt ap) tr
     else if var_soft_bounce e \<and> flags AND BOUNCE_FLAG_CLEAN e \<noteq> 0 then
       (- 1, tr)
     else
       let my_dsn = dsn;
           action = (if var_soft_bounce e then ''delayed'' else ''failed'');
           log_status = (if var_soft_bounce e then ''SOFTBOUNCE'' else ''bounced'');
           why = vstring_vsprintf e fmt ap;
           orig_rcpt = null_to_empty orig_rcpt;
           my_dsn = (if var_soft_bounce e then set_class4 my_dsn else my_dsn);
           (primary, tr) = invoke e
             (append_request
                (if var_soft_bounce e then var_defer_service e else var_bounce_service e)
                flags id' orig_rcpt recipient offset my_dsn action why) tr;
           (ok, tr) =
             (if primary = 0 then
                if flags AND DEL_REQ_FLAG_RECORD e = 0 then (True, tr)
                else let (mirror, tr) = invoke e
                           (Trace_append flags id' (Some orig_rcpt) recipient relay
                              my_dsn entry action ''%s'' [why]) tr
                     in (mirror = 0, tr)
              else (False, tr))
       in if ok then
            (if var_soft_bounce e then - 1 else 0,
             emit (Log_adhoc id' (Some orig_rcpt) recipient relay my_dsn
                     entry log_status ''%s'' [why]) tr)
          else if flags AND BOUNCE_FLAG_CLEAN e = 0 then
            invoke e (Defer_append flags id' (Some orig_rcpt) recipient offset
                        relay (set_class4 my_dsn) entry
                        ''%s or %s service failure''
                        [var_bounce_service e, var_trace_service e]) tr
          else (- 1, tr))"

text \<open>Lines 211 to 224, then the body above.\<close>

definition vbounce_append ::
  "'ap env \<Rightarrow> c_int \<Rightarrow> string \<Rightarrow> string option \<Rightarrow> string \<Rightarrow> int \<Rightarrow> string \<Rightarrow> string \<Rightarrow> int
     \<Rightarrow> string \<Rightarrow> 'ap \<Rightarrow> 'ap call list \<Rightarrow> c_int \<times> 'ap call list" where
  "vbounce_append e flags id' orig_rcpt recipient offset relay dsn entry fmt ap tr =
    (if deref dsn \<noteq> CHR ''5'' \<or> \<not> dsn_valid e dsn then
       vbounce_append_checked e flags id' orig_rcpt recipient offset relay ''5.0.0'' entry fmt ap
         (emit (Msg_warn ''bounce_append: ignoring dsn code \"%s\"'' [dsn]) tr)
     else
       vbounce_append_checked e flags id' orig_rcpt recipient offset relay dsn entry fmt ap tr)"

text \<open>\<^verbatim>\<open>bounce_append\<close>: the variadic entry point, its argument list taken as \<open>ap\<close>.\<close>

definition bounce_append ::
  "'ap env \<Rightarrow> c_int \<Rightarrow> string \<Rightarrow> string option \<Rightarrow> string \<Rightarrow> int \<Rightarrow> string \<Rightarrow> string \<Rightarrow> int
     \<Rightarrow> string \<Rightarrow> 'ap \<Rightarrow> 'ap call list \<Rightarrow> c_int \<times> 'ap call list" where
  "bounce_append e flags id' orig_rcpt recipient offset relay dsn entry fmt ap tr =
     vbounce_append e flags id' orig_rcpt recipient offset relay dsn entry fmt ap tr"

subsection \<open>bounce\_flush\<close>

definition bounce_flush ::
  "'ap env \<Rightarrow> c_int \<Rightarrow> string \<Rightarrow> string \<Rightarrow> string \<Rightarrow> string \<Rightarrow> 'ap call list
     \<Rightarrow> c_int \<times> 'ap call list" where
  "bounce_flush e flags queue id' encoding sender tr =
    (if var_soft_bounce e then (- 1, tr)
     else
       let (request, tr) = invoke e
             (flush_request (var_bounce_service e) flags queue id' encoding sender) tr
       in if request = 0 then (0, tr)
          else if flags AND BOUNCE_FLAG_CLEAN e = 0 then
            (- 1, emit (Msg_info ''%s: status=deferred (bounce failed)'' [id']) tr)
          else (- 1, tr))"

subsection \<open>vbounce\_one\<close>

text \<open>Lines 368 to 442: the body of \<^verbatim>\<open>vbounce_one\<close> after the sanity check.\<close>

definition vbounce_one_checked ::
  "'ap env \<Rightarrow> c_int \<Rightarrow> string \<Rightarrow> string \<Rightarrow> string \<Rightarrow> string \<Rightarrow> string option \<Rightarrow> string \<Rightarrow> int
     \<Rightarrow> string \<Rightarrow> string \<Rightarrow> int \<Rightarrow> string \<Rightarrow> 'ap \<Rightarrow> 'ap call list \<Rightarrow> c_int \<times> 'ap call list" where
  "vbounce_one_checked e flags queue id' encoding sender orig_rcpt recipient offset relay dsn
       entry fmt ap tr =
    (if flags AND DEL_REQ_FLAG_VERIFY e \<noteq> 0 then
       invoke e (Vverify_append id' orig_rcpt recipient relay dsn entry
                   ''undeliverable'' DEL_RCPT_STAT_BOUNCE fmt ap) tr
     else if flags AND DEL_REQ_FLAG_EXPAND e \<noteq> 0 then
       invoke e (Vtrace_append flags id' orig_rcpt recipient relay
                   dsn entry ''undeliverable'' fmt ap) tr
     else if var_soft_bounce e then
       vbounce_append e flags id' orig_rcpt recipient offset relay dsn entry fmt ap tr
     else
       let my_dsn = dsn;
           why = vstring_vsprintf e fmt ap;
           orig_rcpt = null_to_empty orig_rcpt;
           my_dsn = (if var_soft_bounce e then set_class4 my_dsn else my_dsn);
           (primary, tr) = invoke e
             (one_request (var_bounce_service e) flags queue id' encoding sender
                orig_rcpt recipient offset my_dsn ''failed'' why) tr;
           (ok, tr) =
             (if primary = 0 then
                if flags AND DEL_REQ_FLAG_RECORD e = 0 then (True, tr)
                else let (mirror, tr) = invoke e
                           (Trace_append flags id' (Some orig_rcpt) recipient relay
                              my_dsn entry ''failed'' ''%s'' [why]) tr
                     in (mirror = 0, tr)
              else (False, tr))
       in if ok then
            (0, emit (Log_adhoc id' (Some orig_rcpt) recipient relay my_dsn
                        entry ''bounced'' ''%s'' [why]) tr)
          else if flags AND BOUNCE_FLAG_CLEAN e = 0 then
            invoke e (Defer_append flags id' (Some orig_rcpt) recipient offset
                        relay (set_class4 my_dsn) entry
                        ''%s or %s service failure''
                        [var_bounce_service e, var_trace_service e]) tr
          else (- 1, tr))"

text \<open>Lines 352 to 366, then the body above.\<close>

definition vbounce_one ::
  "'ap env \<Rightarrow> c_int \<Rightarrow> string \<Rightarrow> string \<Rightarrow> string \<Rightarrow> string \<Rightarrow> string option \<Rightarrow> string \<Rightarrow> int
     \<Rightarrow> string \<Rightarrow> string \<Rightarrow> int \<Rightarrow> string \<Rightarrow> 'ap \<Rightarrow> 'ap call list \<Rightarrow> c_int \<times> 'ap call list" where
  "vbounce_one e flags queue id' encoding sender orig_rcpt recipient offset relay dsn
       entry fmt ap tr =
    (if deref dsn \<noteq> CHR ''5'' \<or> \<not> dsn_valid e dsn then
       vbounce_one_checked e flags queue id' encoding sender orig_rcpt recipient offset relay
         ''5.0.0'' entry fmt ap
         (emit (Msg_warn ''bounce_one: ignoring dsn code \"%s\"'' [dsn]) tr)
     else
       vbounce_one_checked e flags queue id' encoding sender orig_rcpt recipient offset relay
         dsn entry fmt ap tr)"

text \<open>\<^verbatim>\<open>bounce_one\<close>: the variadic entry point, its argument list taken as \<open>ap\<close>.\<close>

definition bounce_one ::
  "'ap env \<Rightarrow> c_int \<Rightarrow> string \<Rightarrow> string \<Rightarrow> string \<Rightarrow> string \<Rightarrow> string option \<Rightarrow> string \<Rightarrow> int
     \<Rightarrow> string \<Rightarrow> string \<Rightarrow> int \<Rightarrow> string \<Rightarrow> 'ap \<Rightarrow> 'ap call list \<Rightarrow> c_int \<times> 'ap call list" where
  "bounce_one e flags queue id' encoding sender orig_rcpt recipient offset relay dsn
       entry fmt ap tr =
     vbounce_one e flags queue id' encoding sender orig_rcpt recipient offset relay dsn
       entry fmt ap tr"

subsection \<open>Observations on a run\<close>

text \<open>The condition of the sanity check at lines 221 and 363.\<close>

definition dsn_rejected :: "'ap env \<Rightarrow> string \<Rightarrow> bool" where
  "dsn_rejected e dsn \<longleftrightarrow> deref dsn \<noteq> CHR ''5'' \<or> \<not> dsn_valid e dsn"

text \<open>The status code the body works on, and the history it starts from.\<close>

definition working_dsn :: "'ap env \<Rightarrow> string \<Rightarrow> string" where
  "working_dsn e dsn = (if dsn_rejected e dsn then ''5.0.0'' else dsn)"

definition after_check :: "string \<Rightarrow> 'ap env \<Rightarrow> string \<Rightarrow> 'ap call list \<Rightarrow> 'ap call list" where
  "after_check who e dsn tr =
     (if dsn_rejected e dsn
      then tr @ [Msg_warn (who @ '': ignoring dsn code \"%s\"'') [dsn]] else tr)"

text \<open>The calls a run added to the history \<open>tr\<close> it started from.\<close>

definition new_calls :: "'ap call list \<Rightarrow> c_int \<times> 'ap call list \<Rightarrow> 'ap call list" where
  "new_calls tr r = drop (length tr) (snd r)"

text \<open>The status codes a call hands to a peer.\<close>

fun attr_dsn :: "attr \<Rightarrow> string list" where
  "attr_dsn (ATTR_TYPE_STR MAIL_ATTR_STATUS v) = [v]"
| "attr_dsn _ = []"

fun call_dsn :: "'ap call \<Rightarrow> string list" where
  "call_dsn (Vverify_append _ _ _ _ dsn _ _ _ _ _) = [dsn]"
| "call_dsn (Vtrace_append _ _ _ _ _ dsn _ _ _ _) = [dsn]"
| "call_dsn (Trace_append _ _ _ _ _ dsn _ _ _ _) = [dsn]"
| "call_dsn (Defer_append _ _ _ _ _ _ dsn _ _ _) = [dsn]"
| "call_dsn (Log_adhoc _ _ _ _ dsn _ _ _ _) = [dsn]"
| "call_dsn (Mail_command_client _ _ attrs) = concat (map attr_dsn attrs)"
| "call_dsn _ = []"

text \<open>
  Every status code handed to a peer by the calls \<open>xs\<close> is \<open>d\<close>, or \<open>d\<close> with its
  class digit set to 4.
\<close>

definition dsn_within :: "string \<Rightarrow> 'ap call list \<Rightarrow> bool" where
  "dsn_within d xs \<longleftrightarrow>
     list_all (\<lambda>c. list_all (\<lambda>x. x = d \<or> x = set_class4 d) (call_dsn c)) xs"

text \<open>
  Which peer a call reaches: a request to the bounce or defer service, the defer log, the
  trace mirror, the adhoc log; and whether a request asks for the immediate notice.
\<close>

fun is_request :: "'ap call \<Rightarrow> bool" where
  "is_request (Mail_command_client _ _ _) = True"
| "is_request _ = False"

fun is_defer :: "'ap call \<Rightarrow> bool" where
  "is_defer (Defer_append _ _ _ _ _ _ _ _ _ _) = True"
| "is_defer _ = False"

fun is_mirror :: "'ap call \<Rightarrow> bool" where
  "is_mirror (Trace_append _ _ _ _ _ _ _ _ _ _) = True"
| "is_mirror _ = False"

fun is_adhoc :: "'ap call \<Rightarrow> bool" where
  "is_adhoc (Log_adhoc _ _ _ _ _ _ _ _ _) = True"
| "is_adhoc _ = False"

fun is_diagnostic :: "'ap call \<Rightarrow> bool" where
  "is_diagnostic (Msg_warn _ _) = True"
| "is_diagnostic (Msg_info _ _) = True"
| "is_diagnostic _ = False"

fun is_one_shot :: "'ap call \<Rightarrow> bool" where
  "is_one_shot (Mail_command_client _ _ attrs) =
     (ATTR_TYPE_NUM MAIL_ATTR_NREQ (Cmd BOUNCE_CMD_ONE) \<in> set attrs)"
| "is_one_shot _ = False"

text \<open>
  The calls of the normal branches, as functions of the arguments and the working status
  code \<open>dsn\<close>: the append request with the service, status code and action chosen at
  lines 261 to 270, its trace mirror (lines 282 to 284), the one-recipient request and its
  mirror (lines 409 to 426), and the defer fallback (lines 289 to 293 and 431 to 435).
\<close>

definition append_primary ::
  "'ap env \<Rightarrow> c_int \<Rightarrow> string \<Rightarrow> string option \<Rightarrow> string \<Rightarrow> int \<Rightarrow> string \<Rightarrow> string \<Rightarrow> 'ap
     \<Rightarrow> 'ap call" where
  "append_primary e flags id' orig_rcpt recipient offset dsn fmt ap =
     append_request (if var_soft_bounce e then var_defer_service e else var_bounce_service e)
       flags id' (null_to_empty orig_rcpt) recipient offset
       (if var_soft_bounce e then set_class4 dsn else dsn)
       (if var_soft_bounce e then ''delayed'' else ''failed'')
       (vstring_vsprintf e fmt ap)"

definition append_mirror ::
  "'ap env \<Rightarrow> c_int \<Rightarrow> string \<Rightarrow> string option \<Rightarrow> string \<Rightarrow> string \<Rightarrow> string \<Rightarrow> int \<Rightarrow> string
     \<Rightarrow> 'ap \<Rightarrow> 'ap call" where
  "append_mirror e flags id' orig_rcpt recipient relay dsn entry fmt ap =
     Trace_append flags id' (Some (null_to_empty orig_rcpt)) recipient relay
       (if var_soft_bounce e then set_class4 dsn else dsn) entry
       (if var_soft_bounce e then ''delayed'' else ''failed'')
       ''%s'' [vstring_vsprintf e fmt ap]"

definition append_adhoc ::
  "'ap env \<Rightarrow> string \<Rightarrow> string option \<Rightarrow> string \<Rightarrow> string \<Rightarrow> string \<Rightarrow> int \<Rightarrow> string
     \<Rightarrow> 'ap \<Rightarrow> 'ap call" where
  "append_adhoc e id' orig_rcpt recipient relay dsn entry fmt ap =
     Log_adhoc id' (Some (null_to_empty orig_rcpt)) recipient relay
       (if var_soft_bounce e then set_class4 dsn else dsn) entry
       (if var_soft_bounce e then ''SOFTBOUNCE'' else ''bounced'')
       ''%s'' [vstring_vsprintf e fmt ap]"

definition one_primary ::
  "'ap env \<Rightarrow> c_int \<Rightarrow> string \<Rightarrow> string \<Rightarrow> string \<Rightarrow> string \<Rightarrow> string option \<Rightarrow> string \<Rightarrow> int
     \<Rightarrow> string \<Rightarrow> string \<Rightarrow> 'ap \<Rightarrow> 'ap call" where
  "one_primary e flags queue id' encoding sender orig_rcpt recipient offset dsn fmt ap =
     one_request (var_bounce_service e) flags queue id' encoding sender
       (null_to_empty orig_rcpt) recipient offset dsn ''failed'' (vstring_vsprintf e fmt ap)"

definition one_mirror ::
  "'ap env \<Rightarrow> c_int \<Rightarrow> string \<Rightarrow> string option \<Rightarrow> string \<Rightarrow> string \<Rightarrow> string \<Rightarrow> int \<Rightarrow> string
     \<Rightarrow> 'ap \<Rightarrow> 'ap call" where
  "one_mirror e flags id' orig_rcpt recipient relay dsn entry fmt ap =
     Trace_append flags id' (Some (null_to_empty orig_rcpt)) recipient relay dsn entry
       ''failed'' ''%s'' [vstring_vsprintf e fmt ap]"

definition one_adhoc ::
  "'ap env \<Rightarrow> string \<Rightarrow> string option \<Rightarrow> string \<Rightarrow> string \<Rightarrow> string \<Rightarrow> int \<Rightarrow> string
     \<Rightarrow> 'ap \<Rightarrow> 'ap call" where
  "one_adhoc e id' orig_rcpt recipient relay dsn entry fmt ap =
     Log_adhoc id' (Some (null_to_empty orig_rcpt)) recipient relay dsn entry
       ''bounced'' ''%s'' [vstring_vsprintf e fmt ap]"

definition defer_fallback ::
  "'ap env \<Rightarrow> c_int \<Rightarrow> string \<Rightarrow> string option \<Rightarrow> string \<Rightarrow> int \<Rightarrow> string \<Rightarrow> string \<Rightarrow> int
     \<Rightarrow> 'ap call" where
  "defer_fallback e flags id' orig_rcpt recipient offset relay dsn entry =
     Defer_append flags id' (Some (null_to_empty orig_rcpt)) recipient offset relay
       (set_class4 dsn) entry ''%s or %s service failure''
       [var_bounce_service e, var_trace_service e]"

subsection \<open>A sample environment\<close>

text \<open>
  Concrete surroundings for evaluating the functions: the flag masks \<open>0x100\<close>, \<open>0x200\<close>,
  \<open>0x400\<close> and \<open>1\<close>, services named after their role, a validity check that accepts
  \<open>d.d.d\<close> with class 2, 4 or 5, a formatter that returns the format, and peers whose
  answers are the parameter \<open>answers\<close>.
\<close>

definition sample_dsn_valid :: "string \<Rightarrow> bool" where
  "sample_dsn_valid s =
     (case s of
        [c, p, x, q, y] \<Rightarrow>
          c \<in> set ''245'' \<and> p = CHR ''.'' \<and> x \<in> set ''0123456789'' \<and> q = CHR ''.''
            \<and> y \<in> set ''0123456789''
      | _ \<Rightarrow> False)"

definition sample_env ::
  "bool \<Rightarrow> (string list call list \<Rightarrow> string list call \<Rightarrow> c_int) \<Rightarrow> string list env" where
  "sample_env soft answers =
     \<lparr>var_soft_bounce = soft,
      var_bounce_service = ''bounce'',
      var_defer_service = ''defer'',
      var_trace_service = ''trace'',
      DEL_REQ_FLAG_VERIFY = 0x100,
      DEL_REQ_FLAG_EXPAND = 0x200,
      DEL_REQ_FLAG_RECORD = 0x400,
      BOUNCE_FLAG_CLEAN = 1,
      dsn_valid = sample_dsn_valid,
      vstring_vsprintf = (\<lambda>fmt ap. fmt),
      respond = answers\<rparr>"

text \<open>Peers that all succeed; a bounce service that is down; a trace service that is down.\<close>

definition all_up :: "string list call list \<Rightarrow> string list call \<Rightarrow> c_int" where
  "all_up tr c = 0"

definition requests_fail :: "string list call list \<Rightarrow> string list call \<Rightarrow> c_int" where
  "requests_fail tr c = (if is_request c then - 1 else 0)"

definition mirror_fails :: "string list call list \<Rightarrow> string list call \<Rightarrow> c_int" where
  "mirror_fails tr c = (if is_mirror c then - 1 else 0)"

section \<open>Properties\<close>

subsection \<open>Shared lemmas\<close>

lemma unfold_append:
  "vbounce_append e flags id' orig_rcpt recipient offset relay dsn entry fmt ap tr =
     vbounce_append_checked e flags id' orig_rcpt recipient offset relay (working_dsn e dsn)
       entry fmt ap (after_check ''bounce_append'' e dsn tr)"
  by (simp add: vbounce_append_def working_dsn_def after_check_def dsn_rejected_def emit_def)

lemma unfold_one:
  "vbounce_one e flags queue id' encoding sender orig_rcpt recipient offset relay dsn
       entry fmt ap tr =
     vbounce_one_checked e flags queue id' encoding sender orig_rcpt recipient offset relay
       (working_dsn e dsn) entry fmt ap (after_check ''bounce_one'' e dsn tr)"
  by (simp add: vbounce_one_def working_dsn_def after_check_def dsn_rejected_def emit_def)

lemma set_class4_idem: "set_class4 (set_class4 s) = set_class4 s"
  by (simp add: set_class4_def)

lemma new_calls_append [simp]: "new_calls tr (s, tr @ xs) = xs"
  by (simp add: new_calls_def)

lemma new_calls_self [simp]: "new_calls tr (s, tr) = []"
  by (simp add: new_calls_def)

lemma after_check_prefix:
  "after_check who e dsn tr =
     tr @ (if dsn_rejected e dsn
           then [Msg_warn (who @ '': ignoring dsn code \"%s\"'') [dsn]] else [])"
  by (simp add: after_check_def)

text \<open>
  The normal branch of \<^verbatim>\<open>vbounce_append\<close> written out: the request, the mirror when the
  request succeeded and RECORD is set, then the adhoc log on success, the defer fallback
  on failure without CLEAN, nothing more on failure with CLEAN.
\<close>

lemma append_normal:
  assumes "flags AND DEL_REQ_FLAG_VERIFY e = 0" and "flags AND DEL_REQ_FLAG_EXPAND e = 0"
    and "\<not> (var_soft_bounce e \<and> flags AND BOUNCE_FLAG_CLEAN e \<noteq> 0)"
  shows "vbounce_append_checked e flags id' orig_rcpt recipient offset relay dsn entry fmt ap tr =
    (let P = append_primary e flags id' orig_rcpt recipient offset dsn fmt ap;
         M = append_mirror e flags id' orig_rcpt recipient relay dsn entry fmt ap;
         L = append_adhoc e id' orig_rcpt recipient relay dsn entry fmt ap;
         D = defer_fallback e flags id' orig_rcpt recipient offset relay dsn entry;
         p = respond e tr P;
         m = respond e (tr @ [P]) M;
         tr1 = tr @ P # (if p = 0 \<and> flags AND DEL_REQ_FLAG_RECORD e \<noteq> 0 then [M] else [])
     in if p = 0 \<and> (flags AND DEL_REQ_FLAG_RECORD e = 0 \<or> m = 0)
        then (if var_soft_bounce e then - 1 else 0, tr1 @ [L])
        else if flags AND BOUNCE_FLAG_CLEAN e = 0 then (respond e tr1 D, tr1 @ [D])
        else (- 1, tr1))"
  using assms
  by (simp add: vbounce_append_checked_def append_primary_def append_mirror_def
      append_adhoc_def defer_fallback_def invoke_def emit_def Let_def set_class4_idem)

text \<open>The immediate-notice branch of \<^verbatim>\<open>vbounce_one\<close> written out in the same way.\<close>

lemma one_normal:
  assumes "flags AND DEL_REQ_FLAG_VERIFY e = 0" and "flags AND DEL_REQ_FLAG_EXPAND e = 0"
    and "\<not> var_soft_bounce e"
  shows "vbounce_one_checked e flags queue id' encoding sender orig_rcpt recipient offset relay
           dsn entry fmt ap tr =
    (let P = one_primary e flags queue id' encoding sender orig_rcpt recipient offset dsn fmt ap;
         M = one_mirror e flags id' orig_rcpt recipient relay dsn entry fmt ap;
         L = one_adhoc e id' orig_rcpt recipient relay dsn entry fmt ap;
         D = defer_fallback e flags id' orig_rcpt recipient offset relay dsn entry;
         p = respond e tr P;
         m = respond e (tr @ [P]) M;
         tr1 = tr @ P # (if p = 0 \<and> flags AND DEL_REQ_FLAG_RECORD e \<noteq> 0 then [M] else [])
     in if p = 0 \<and> (flags AND DEL_REQ_FLAG_RECORD e = 0 \<or> m = 0)
        then (0, tr1 @ [L])
        else if flags AND BOUNCE_FLAG_CLEAN e = 0 then (respond e tr1 D, tr1 @ [D])
        else (- 1, tr1))"
  using assms
  by (simp add: vbounce_one_checked_def one_primary_def one_mirror_def
      one_adhoc_def defer_fallback_def invoke_def emit_def Let_def)

lemma deref_working_dsn: "deref (working_dsn e dsn) = CHR ''5''"
  by (simp add: working_dsn_def dsn_rejected_def deref_def)

lemma set_class4_working_dsn:
  "set_class4 (working_dsn e dsn) = CHR ''4'' # tl (working_dsn e dsn)"
proof (cases "working_dsn e dsn")
  case Nil
  with deref_working_dsn [of e dsn] show ?thesis by (simp add: deref_def)
next
  case (Cons c cs)
  then show ?thesis by (simp add: set_class4_def)
qed

lemma working_dsn_rejected: "dsn_rejected e dsn \<Longrightarrow> working_dsn e dsn = ''5.0.0''"
  by (simp add: working_dsn_def)

lemma working_dsn_default: "working_dsn e ''5.0.0'' = ''5.0.0''"
  by (simp add: working_dsn_def)

lemma append_checked_calls:
  "\<exists>xs. snd (vbounce_append_checked e flags id' orig_rcpt recipient offset relay d entry fmt ap tr)
          = tr @ xs
        \<and> filter is_one_shot xs = []
        \<and> dsn_within d xs"
  by (simp add: vbounce_append_checked_def invoke_def emit_def Let_def append_request_def
      set_class4_idem dsn_within_def split: prod.splits)

lemma append_calls:
  "\<exists>xs. snd (vbounce_append e flags id' orig_rcpt recipient offset relay dsn entry fmt ap tr)
          = after_check ''bounce_append'' e dsn tr @ xs
        \<and> filter is_one_shot xs = []
        \<and> dsn_within (working_dsn e dsn) xs"
  unfolding unfold_append by (rule append_checked_calls)

lemma one_checked_calls:
  "\<exists>xs. snd (vbounce_one_checked e flags queue id' encoding sender orig_rcpt recipient offset
               relay ''5.0.0'' entry fmt ap tr) = tr @ xs
        \<and> dsn_within ''5.0.0'' xs"
proof (cases "flags AND DEL_REQ_FLAG_VERIFY e = 0 \<and> flags AND DEL_REQ_FLAG_EXPAND e = 0
              \<and> var_soft_bounce e")
  case True
  obtain xs where xs:
    "snd (vbounce_append e flags id' orig_rcpt recipient offset relay ''5.0.0'' entry fmt ap tr)
       = after_check ''bounce_append'' e ''5.0.0'' tr @ xs"
    "dsn_within (working_dsn e ''5.0.0'') xs"
    using append_calls [of e flags id' orig_rcpt recipient offset relay "''5.0.0''" entry fmt ap tr]
    by blast
  from True xs show ?thesis
    by (simp add: vbounce_one_checked_def after_check_prefix working_dsn_default dsn_within_def)
next
  case False
  then show ?thesis
    by (auto simp add: vbounce_one_checked_def invoke_def emit_def Let_def one_request_def
        dsn_within_def split: prod.splits)
qed

text \<open>The sample validity check rejects \<open>9.9.9\<close> and accepts \<open>5.1.1\<close> and \<open>5.0.0\<close>.\<close>

lemma sample_rejects: "dsn_rejected (sample_env soft answers) ''9.9.9''"
  by (simp add: dsn_rejected_def deref_def)

lemma sample_accepts: "\<not> dsn_rejected (sample_env soft answers) ''5.1.1''"
  by (simp add: dsn_rejected_def deref_def sample_env_def sample_dsn_valid_def)

lemma sample_accepts_default: "\<not> dsn_rejected (sample_env soft answers) ''5.0.0''"
  by (simp add: dsn_rejected_def deref_def sample_env_def sample_dsn_valid_def)

subsection \<open>The sanity check\<close>

text \<open>
  Claim C1. When the status code handed to \<^verbatim>\<open>vbounce_append\<close> or \<^verbatim>\<open>vbounce_one\<close>
  does not start with the class digit 5 or fails \<^verbatim>\<open>dsn_valid\<close>, the call warns and
  then runs the whole body on exactly \<open>5.0.0\<close>: the result is the body's result on
  \<open>5.0.0\<close> from the history extended by the warning. Nothing is rejected: the history
  continues after the warning, and every status code a peer receives afterwards is
  \<open>5.0.0\<close> or its class-4 rewrite \<open>4.0.0\<close>.
\<close>

theorem rejected_dsn_replaced:
  assumes "deref dsn \<noteq> CHR ''5'' \<or> \<not> dsn_valid e dsn"
  shows "vbounce_append e flags id' orig_rcpt recipient offset relay dsn entry fmt ap tr =
           vbounce_append_checked e flags id' orig_rcpt recipient offset relay ''5.0.0'' entry
             fmt ap (tr @ [Msg_warn ''bounce_append: ignoring dsn code \"%s\"'' [dsn]])
       \<and> vbounce_one e flags queue id' encoding sender orig_rcpt recipient offset relay dsn
             entry fmt ap tr =
           vbounce_one_checked e flags queue id' encoding sender orig_rcpt recipient offset
             relay ''5.0.0'' entry fmt ap
             (tr @ [Msg_warn ''bounce_one: ignoring dsn code \"%s\"'' [dsn]])
       \<and> (\<exists>xs. snd (vbounce_append e flags id' orig_rcpt recipient offset relay dsn entry
                      fmt ap tr) =
                  tr @ Msg_warn ''bounce_append: ignoring dsn code \"%s\"'' [dsn] # xs
                \<and> dsn_within ''5.0.0'' xs)
       \<and> (\<exists>xs. snd (vbounce_one e flags queue id' encoding sender orig_rcpt recipient offset
                      relay dsn entry fmt ap tr) =
                  tr @ Msg_warn ''bounce_one: ignoring dsn code \"%s\"'' [dsn] # xs
                \<and> dsn_within ''5.0.0'' xs)"
proof -
  from assms have rej: "dsn_rejected e dsn" by (simp add: dsn_rejected_def)
  have a: "vbounce_append e flags id' orig_rcpt recipient offset relay dsn entry fmt ap tr =
           vbounce_append_checked e flags id' orig_rcpt recipient offset relay ''5.0.0'' entry
             fmt ap (tr @ [Msg_warn ''bounce_append: ignoring dsn code \"%s\"'' [dsn]])"
    using rej by (simp add: unfold_append working_dsn_rejected after_check_def)
  have b: "vbounce_one e flags queue id' encoding sender orig_rcpt recipient offset relay dsn
             entry fmt ap tr =
           vbounce_one_checked e flags queue id' encoding sender orig_rcpt recipient offset
             relay ''5.0.0'' entry fmt ap
             (tr @ [Msg_warn ''bounce_one: ignoring dsn code \"%s\"'' [dsn]])"
    using rej by (simp add: unfold_one working_dsn_rejected after_check_def)
  have c: "\<exists>xs. snd (vbounce_append e flags id' orig_rcpt recipient offset relay dsn entry
                      fmt ap tr) =
                  tr @ Msg_warn ''bounce_append: ignoring dsn code \"%s\"'' [dsn] # xs
                \<and> dsn_within ''5.0.0'' xs"
    using append_checked_calls [of e flags id' orig_rcpt recipient offset relay "''5.0.0''"
        entry fmt ap "tr @ [Msg_warn ''bounce_append: ignoring dsn code \"%s\"'' [dsn]]"]
    unfolding a by auto
  have d: "\<exists>xs. snd (vbounce_one e flags queue id' encoding sender orig_rcpt recipient offset
                      relay dsn entry fmt ap tr) =
                  tr @ Msg_warn ''bounce_one: ignoring dsn code \"%s\"'' [dsn] # xs
                \<and> dsn_within ''5.0.0'' xs"
    using one_checked_calls [of e flags queue id' encoding sender orig_rcpt recipient offset
        relay entry fmt ap "tr @ [Msg_warn ''bounce_one: ignoring dsn code \"%s\"'' [dsn]]"]
    unfolding b by auto
  from a b c d show ?thesis by blast
qed

theorem rejected_dsn_replaced_witness:
  "deref ''9.9.9'' \<noteq> CHR ''5''
   \<and> vbounce_append (sample_env False all_up) 0 ''A1'' None ''bob@example.com'' 7 ''relay''
       ''9.9.9'' 99 ''no such user'' [] [] =
     (0, [Msg_warn ''bounce_append: ignoring dsn code \"%s\"'' [''9.9.9''],
          append_request ''bounce'' 0 ''A1'' [] ''bob@example.com'' 7 ''5.0.0'' ''failed''
            ''no such user'',
          Log_adhoc ''A1'' (Some []) ''bob@example.com'' ''relay'' ''5.0.0'' 99 ''bounced'' ''%s''
            [''no such user'']])
   \<and> vbounce_one (sample_env False all_up) 0 ''incoming'' ''A1'' ''7bit'' ''alice'' None
       ''bob@example.com'' 7 ''relay'' ''9.9.9'' 99 ''no such user'' [] [] =
     (0, [Msg_warn ''bounce_one: ignoring dsn code \"%s\"'' [''9.9.9''],
          one_request ''bounce'' 0 ''incoming'' ''A1'' ''7bit'' ''alice'' [] ''bob@example.com'' 7
            ''5.0.0'' ''failed'' ''no such user'',
          Log_adhoc ''A1'' (Some []) ''bob@example.com'' ''relay'' ''5.0.0'' 99 ''bounced'' ''%s''
            [''no such user'']])"
  using rejected_dsn_replaced [where e = "sample_env False all_up"
      and flags = 0 and id' = "''A1''" and orig_rcpt = None
      and recipient = "''bob@example.com''" and offset = 7 and relay = "''relay''"
      and dsn = "''9.9.9''" and entry = 99 and fmt = "''no such user''" and ap = "[]"
      and tr = "[]" and queue = "''incoming''" and encoding = "''7bit''"
      and sender = "''alice''"]
  by (simp add: deref_def vbounce_append_checked_def vbounce_one_checked_def sample_env_def
      all_up_def invoke_def emit_def null_to_empty_def Let_def)

subsection \<open>Address verification probes\<close>

text \<open>
  Claim C2. With VERIFY set, whatever the other flags (EXPAND included) and whatever the
  soft-bounce setting, \<^verbatim>\<open>vbounce_append\<close> and \<^verbatim>\<open>vbounce_one\<close> make one call, to the
  verification service with the working status code, and return its status. Apart from the
  warning of the sanity check it is the only call: no request to the bounce or defer
  service, no defer log entry, no trace record.
\<close>

theorem verify_first:
  assumes "flags AND DEL_REQ_FLAG_VERIFY e \<noteq> 0"
  shows "vbounce_append e flags id' orig_rcpt recipient offset relay dsn entry fmt ap tr =
           invoke e (Vverify_append id' orig_rcpt recipient relay (working_dsn e dsn) entry
                       ''undeliverable'' DEL_RCPT_STAT_BOUNCE fmt ap)
             (after_check ''bounce_append'' e dsn tr)
       \<and> vbounce_one e flags queue id' encoding sender orig_rcpt recipient offset relay dsn
             entry fmt ap tr =
           invoke e (Vverify_append id' orig_rcpt recipient relay (working_dsn e dsn) entry
                       ''undeliverable'' DEL_RCPT_STAT_BOUNCE fmt ap)
             (after_check ''bounce_one'' e dsn tr)
       \<and> filter (\<lambda>c. \<not> is_diagnostic c)
           (new_calls tr (vbounce_append e flags id' orig_rcpt recipient offset relay dsn
                            entry fmt ap tr)) =
           [Vverify_append id' orig_rcpt recipient relay (working_dsn e dsn) entry
              ''undeliverable'' DEL_RCPT_STAT_BOUNCE fmt ap]
       \<and> filter (\<lambda>c. \<not> is_diagnostic c)
           (new_calls tr (vbounce_one e flags queue id' encoding sender orig_rcpt recipient
                            offset relay dsn entry fmt ap tr)) =
           [Vverify_append id' orig_rcpt recipient relay (working_dsn e dsn) entry
              ''undeliverable'' DEL_RCPT_STAT_BOUNCE fmt ap]"
  using assms
  by (simp add: unfold_append unfold_one vbounce_append_checked_def vbounce_one_checked_def
      invoke_def after_check_prefix)

theorem verify_first_witness:
  "(0x701 :: c_int) AND DEL_REQ_FLAG_VERIFY (sample_env True all_up) \<noteq> 0
   \<and> (0x701 :: c_int) AND DEL_REQ_FLAG_EXPAND (sample_env True all_up) \<noteq> 0
   \<and> vbounce_append (sample_env True all_up) 0x701 ''A1'' None ''bob@example.com'' 7 ''relay''
       ''5.1.1'' 99 ''no such user'' [] [] =
     (0, [Vverify_append ''A1'' None ''bob@example.com'' ''relay'' ''5.1.1'' 99 ''undeliverable''
            DEL_RCPT_STAT_BOUNCE ''no such user'' []])
   \<and> vbounce_one (sample_env True all_up) 0x701 ''incoming'' ''A1'' ''7bit'' ''alice'' None
       ''bob@example.com'' 7 ''relay'' ''5.1.1'' 99 ''no such user'' [] [] =
     (0, [Vverify_append ''A1'' None ''bob@example.com'' ''relay'' ''5.1.1'' 99 ''undeliverable''
            DEL_RCPT_STAT_BOUNCE ''no such user'' []])"
  using verify_first [where e = "sample_env True all_up"
      and flags = "0x701" and id' = "''A1''" and orig_rcpt = None
      and recipient = "''bob@example.com''" and offset = 7 and relay = "''relay''"
      and dsn = "''5.1.1''" and entry = 99 and fmt = "''no such user''" and ap = "[]"
      and tr = "[]" and queue = "''incoming''" and encoding = "''7bit''"
      and sender = "''alice''"]
    sample_accepts [of True all_up]
  by (simp add: working_dsn_def after_check_def invoke_def)
    (simp add: sample_env_def all_up_def)

subsection \<open>Order of the primary action, the mirror and the fallback\<close>

text \<open>
  A run of \<^verbatim>\<open>vbounce_append\<close> with RECORD set, CLEAN unset and soft bounce disabled, in
  which the bounce service accepts the request and the trace service fails: the request
  succeeded, the mirror was attempted, and the defer fallback was made as well. The defer
  fallback is therefore not confined to failures of the primary action, and a mirror and a
  fallback can occur in the same call.
\<close>

theorem mirror_then_fallback_counterexample:
  "\<not> var_soft_bounce (sample_env False mirror_fails)
   \<and> (0x400 :: c_int) AND DEL_REQ_FLAG_VERIFY (sample_env False mirror_fails) = 0
   \<and> (0x400 :: c_int) AND DEL_REQ_FLAG_EXPAND (sample_env False mirror_fails) = 0
   \<and> vbounce_append (sample_env False mirror_fails) 0x400 ''A1'' None ''bob@example.com'' 7
       ''relay'' ''5.1.1'' 99 ''no such user'' [] [] =
     (0, [append_request ''bounce'' 0x400 ''A1'' [] ''bob@example.com'' 7 ''5.1.1'' ''failed''
            ''no such user'',
          Trace_append 0x400 ''A1'' (Some []) ''bob@example.com'' ''relay'' ''5.1.1'' 99
            ''failed'' ''%s'' [''no such user''],
          Defer_append 0x400 ''A1'' (Some []) ''bob@example.com'' 7 ''relay'' ''4.1.1'' 99
            ''%s or %s service failure'' [''bounce'', ''trace'']])
   \<and> respond (sample_env False mirror_fails) []
        (append_request ''bounce'' 0x400 ''A1'' [] ''bob@example.com'' 7 ''5.1.1'' ''failed''
           ''no such user'') = 0"
  by (simp add: vbounce_append_def vbounce_append_checked_def append_request_def deref_def
      sample_env_def sample_dsn_valid_def mirror_fails_def invoke_def emit_def Let_def
      null_to_empty_def set_class4_def)

text \<open>
  Claim C3, amended. On the normal path of \<^verbatim>\<open>vbounce_append\<close> (VERIFY and EXPAND unset,
  not soft bounce with CLEAN) and of \<^verbatim>\<open>vbounce_one\<close> (VERIFY and EXPAND unset, soft
  bounce disabled) the calls after the sanity check are, in this order: the primary request;
  the trace mirror, exactly when the request succeeded and RECORD is set; then the adhoc log
  when the request and any mirror succeeded, and otherwise the defer fallback when CLEAN is
  unset. So the primary action is over before a mirror or a fallback begins, the mirror is
  made only after a successful primary action, and the defer fallback is made only after a
  failure of the primary action or of the mirror.
\<close>

theorem primary_mirror_fallback_order:
  assumes "flags AND DEL_REQ_FLAG_VERIFY e = 0" and "flags AND DEL_REQ_FLAG_EXPAND e = 0"
  shows "(\<not> (var_soft_bounce e \<and> flags AND BOUNCE_FLAG_CLEAN e \<noteq> 0) \<longrightarrow>
          (let tr' = after_check ''bounce_append'' e dsn tr;
               d = working_dsn e dsn;
               P = append_primary e flags id' orig_rcpt recipient offset d fmt ap;
               M = append_mirror e flags id' orig_rcpt recipient relay d entry fmt ap;
               L = append_adhoc e id' orig_rcpt recipient relay d entry fmt ap;
               D = defer_fallback e flags id' orig_rcpt recipient offset relay d entry;
               p = respond e tr' P;
               m = respond e (tr' @ [P]) M
           in new_calls tr' (vbounce_append e flags id' orig_rcpt recipient offset relay dsn
                               entry fmt ap tr) =
                P # (if p = 0 \<and> flags AND DEL_REQ_FLAG_RECORD e \<noteq> 0 then [M] else [])
                  @ (if p = 0 \<and> (flags AND DEL_REQ_FLAG_RECORD e = 0 \<or> m = 0) then [L]
                     else if flags AND BOUNCE_FLAG_CLEAN e = 0 then [D] else [])))
       \<and> (\<not> var_soft_bounce e \<longrightarrow>
          (let tr' = after_check ''bounce_one'' e dsn tr;
               d = working_dsn e dsn;
               P = one_primary e flags queue id' encoding sender orig_rcpt recipient offset d
                     fmt ap;
               M = one_mirror e flags id' orig_rcpt recipient relay d entry fmt ap;
               L = one_adhoc e id' orig_rcpt recipient relay d entry fmt ap;
               D = defer_fallback e flags id' orig_rcpt recipient offset relay d entry;
               p = respond e tr' P;
               m = respond e (tr' @ [P]) M
           in new_calls tr' (vbounce_one e flags queue id' encoding sender orig_rcpt recipient
                               offset relay dsn entry fmt ap tr) =
                P # (if p = 0 \<and> flags AND DEL_REQ_FLAG_RECORD e \<noteq> 0 then [M] else [])
                  @ (if p = 0 \<and> (flags AND DEL_REQ_FLAG_RECORD e = 0 \<or> m = 0) then [L]
                     else if flags AND BOUNCE_FLAG_CLEAN e = 0 then [D] else [])))"
proof -
  have a: "\<not> (var_soft_bounce e \<and> flags AND BOUNCE_FLAG_CLEAN e \<noteq> 0) \<Longrightarrow>
          (let tr' = after_check ''bounce_append'' e dsn tr;
               d = working_dsn e dsn;
               P = append_primary e flags id' orig_rcpt recipient offset d fmt ap;
               M = append_mirror e flags id' orig_rcpt recipient relay d entry fmt ap;
               L = append_adhoc e id' orig_rcpt recipient relay d entry fmt ap;
               D = defer_fallback e flags id' orig_rcpt recipient offset relay d entry;
               p = respond e tr' P;
               m = respond e (tr' @ [P]) M
           in new_calls tr' (vbounce_append e flags id' orig_rcpt recipient offset relay dsn
                               entry fmt ap tr) =
                P # (if p = 0 \<and> flags AND DEL_REQ_FLAG_RECORD e \<noteq> 0 then [M] else [])
                  @ (if p = 0 \<and> (flags AND DEL_REQ_FLAG_RECORD e = 0 \<or> m = 0) then [L]
                     else if flags AND BOUNCE_FLAG_CLEAN e = 0 then [D] else []))"
    using assms by (auto simp add: unfold_append append_normal Let_def)
  have b: "\<not> var_soft_bounce e \<Longrightarrow>
          (let tr' = after_check ''bounce_one'' e dsn tr;
               d = working_dsn e dsn;
               P = one_primary e flags queue id' encoding sender orig_rcpt recipient offset d
                     fmt ap;
               M = one_mirror e flags id' orig_rcpt recipient relay d entry fmt ap;
               L = one_adhoc e id' orig_rcpt recipient relay d entry fmt ap;
               D = defer_fallback e flags id' orig_rcpt recipient offset relay d entry;
               p = respond e tr' P;
               m = respond e (tr' @ [P]) M
           in new_calls tr' (vbounce_one e flags queue id' encoding sender orig_rcpt recipient
                               offset relay dsn entry fmt ap tr) =
                P # (if p = 0 \<and> flags AND DEL_REQ_FLAG_RECORD e \<noteq> 0 then [M] else [])
                  @ (if p = 0 \<and> (flags AND DEL_REQ_FLAG_RECORD e = 0 \<or> m = 0) then [L]
                     else if flags AND BOUNCE_FLAG_CLEAN e = 0 then [D] else []))"
    using assms by (auto simp add: unfold_one one_normal Let_def)
  from a b show ?thesis by blast
qed

theorem primary_mirror_fallback_order_witness:
  "(0x400 :: c_int) AND DEL_REQ_FLAG_VERIFY (sample_env False mirror_fails) = 0
   \<and> (0x400 :: c_int) AND DEL_REQ_FLAG_EXPAND (sample_env False mirror_fails) = 0
   \<and> new_calls []
       (vbounce_append (sample_env False mirror_fails) 0x400 ''A1'' None ''bob@example.com'' 7
          ''relay'' ''5.1.1'' 99 ''no such user'' [] []) =
     [append_request ''bounce'' 0x400 ''A1'' [] ''bob@example.com'' 7 ''5.1.1'' ''failed''
        ''no such user'',
      Trace_append 0x400 ''A1'' (Some []) ''bob@example.com'' ''relay'' ''5.1.1'' 99
        ''failed'' ''%s'' [''no such user''],
      Defer_append 0x400 ''A1'' (Some []) ''bob@example.com'' 7 ''relay'' ''4.1.1'' 99
        ''%s or %s service failure'' [''bounce'', ''trace'']]
   \<and> new_calls []
       (vbounce_one (sample_env False all_up) 0x400 ''incoming'' ''A1'' ''7bit'' ''alice'' None
          ''bob@example.com'' 7 ''relay'' ''5.1.1'' 99 ''no such user'' [] []) =
     [one_request ''bounce'' 0x400 ''incoming'' ''A1'' ''7bit'' ''alice'' [] ''bob@example.com''
        7 ''5.1.1'' ''failed'' ''no such user'',
      Trace_append 0x400 ''A1'' (Some []) ''bob@example.com'' ''relay'' ''5.1.1'' 99
        ''failed'' ''%s'' [''no such user''],
      Log_adhoc ''A1'' (Some []) ''bob@example.com'' ''relay'' ''5.1.1'' 99 ''bounced'' ''%s''
        [''no such user'']]"
  using primary_mirror_fallback_order [where e = "sample_env False mirror_fails"
      and flags = "0x400" and id' = "''A1''" and orig_rcpt = None
      and recipient = "''bob@example.com''" and offset = 7 and relay = "''relay''"
      and dsn = "''5.1.1''" and entry = 99 and fmt = "''no such user''" and ap = "[]"
      and tr = "[]" and queue = "''incoming''" and encoding = "''7bit''"
      and sender = "''alice''"]
    primary_mirror_fallback_order [where e = "sample_env False all_up"
      and flags = "0x400" and id' = "''A1''" and orig_rcpt = None
      and recipient = "''bob@example.com''" and offset = 7 and relay = "''relay''"
      and dsn = "''5.1.1''" and entry = 99 and fmt = "''no such user''" and ap = "[]"
      and tr = "[]" and queue = "''incoming''" and encoding = "''7bit''"
      and sender = "''alice''"]
    sample_accepts [of False mirror_fails] sample_accepts [of False all_up]
  by (simp add: working_dsn_def after_check_def Let_def)
    (simp add: sample_env_def mirror_fails_def all_up_def append_primary_def append_mirror_def
      append_adhoc_def one_primary_def one_mirror_def one_adhoc_def defer_fallback_def
      append_request_def one_request_def null_to_empty_def set_class4_def)

subsection \<open>The service of the append request\<close>

text \<open>
  A run of \<^verbatim>\<open>vbounce_append\<close> in its normal branch with soft bounce enabled and CLEAN
  unset: the append request goes to the defer service, not to the bounce service.
\<close>

theorem append_primary_service_counterexample:
  "vbounce_append (sample_env True all_up) 0 ''A1'' None ''bob@example.com'' 7 ''relay''
       ''5.1.1'' 99 ''no such user'' [] [] =
     (- 1, [Mail_command_client MAIL_CLASS_PRIVATE ''defer''
              [ATTR_TYPE_NUM MAIL_ATTR_NREQ (Cmd BOUNCE_CMD_APPEND),
               ATTR_TYPE_NUM MAIL_ATTR_FLAGS (Num 0),
               ATTR_TYPE_STR MAIL_ATTR_QUEUEID ''A1'',
               ATTR_TYPE_STR MAIL_ATTR_ORCPT [],
               ATTR_TYPE_STR MAIL_ATTR_RECIP ''bob@example.com'',
               ATTR_TYPE_LONG MAIL_ATTR_OFFSET 7,
               ATTR_TYPE_STR MAIL_ATTR_STATUS ''4.1.1'',
               ATTR_TYPE_STR MAIL_ATTR_ACTION ''delayed'',
               ATTR_TYPE_STR MAIL_ATTR_WHY ''no such user''],
            Log_adhoc ''A1'' (Some []) ''bob@example.com'' ''relay'' ''4.1.1'' 99 ''SOFTBOUNCE''
              ''%s'' [''no such user'']])
   \<and> var_bounce_service (sample_env True all_up) = ''bounce''
   \<and> var_defer_service (sample_env True all_up) = ''defer''
   \<and> (0 :: c_int) AND DEL_REQ_FLAG_VERIFY (sample_env True all_up) = 0
   \<and> (0 :: c_int) AND DEL_REQ_FLAG_EXPAND (sample_env True all_up) = 0
   \<and> (0 :: c_int) AND BOUNCE_FLAG_CLEAN (sample_env True all_up) = 0"
  by (simp add: vbounce_append_def vbounce_append_checked_def append_request_def deref_def
      sample_env_def sample_dsn_valid_def all_up_def invoke_def emit_def Let_def
      null_to_empty_def set_class4_def)

text \<open>
  Claim C4, amended. In the normal branch of \<^verbatim>\<open>vbounce_append\<close> the first call after
  the sanity check is \<^verbatim>\<open>mail_command_client\<close> in the private class with the append
  request: request code, flags, queue id, original recipient (empty when null), recipient,
  offset, status code, action and reason. It is sent to the bounce service, with the working
  status code and the action "failed", when soft bounce is disabled; when soft bounce is
  enabled it is sent to the defer service, with the class digit of the status code replaced
  by 4 and the action "delayed".
\<close>

theorem append_primary_service:
  assumes "flags AND DEL_REQ_FLAG_VERIFY e = 0" and "flags AND DEL_REQ_FLAG_EXPAND e = 0"
    and "\<not> (var_soft_bounce e \<and> flags AND BOUNCE_FLAG_CLEAN e \<noteq> 0)"
  shows "take 1 (new_calls (after_check ''bounce_append'' e dsn tr)
                   (vbounce_append e flags id' orig_rcpt recipient offset relay dsn entry
                      fmt ap tr)) =
           [Mail_command_client MAIL_CLASS_PRIVATE
              (if var_soft_bounce e then var_defer_service e else var_bounce_service e)
              [ATTR_TYPE_NUM MAIL_ATTR_NREQ (Cmd BOUNCE_CMD_APPEND),
               ATTR_TYPE_NUM MAIL_ATTR_FLAGS (Num flags),
               ATTR_TYPE_STR MAIL_ATTR_QUEUEID id',
               ATTR_TYPE_STR MAIL_ATTR_ORCPT (case orig_rcpt of None \<Rightarrow> [] | Some r \<Rightarrow> r),
               ATTR_TYPE_STR MAIL_ATTR_RECIP recipient,
               ATTR_TYPE_LONG MAIL_ATTR_OFFSET offset,
               ATTR_TYPE_STR MAIL_ATTR_STATUS
                 (if var_soft_bounce e then CHR ''4'' # tl (working_dsn e dsn)
                  else working_dsn e dsn),
               ATTR_TYPE_STR MAIL_ATTR_ACTION
                 (if var_soft_bounce e then ''delayed'' else ''failed''),
               ATTR_TYPE_STR MAIL_ATTR_WHY (vstring_vsprintf e fmt ap)]]"
  using assms
  by (simp add: unfold_append append_normal append_primary_def append_request_def
      null_to_empty_def set_class4_working_dsn Let_def)

theorem append_primary_service_witness:
  "(0 :: c_int) AND DEL_REQ_FLAG_VERIFY (sample_env False all_up) = 0
   \<and> (0 :: c_int) AND DEL_REQ_FLAG_EXPAND (sample_env False all_up) = 0
   \<and> take 1 (new_calls []
        (vbounce_append (sample_env False all_up) 0 ''A1'' (Some ''rob@example.com'')
           ''bob@example.com'' 7 ''relay'' ''5.1.1'' 99 ''no such user'' [] [])) =
       [Mail_command_client MAIL_CLASS_PRIVATE ''bounce''
          [ATTR_TYPE_NUM MAIL_ATTR_NREQ (Cmd BOUNCE_CMD_APPEND),
           ATTR_TYPE_NUM MAIL_ATTR_FLAGS (Num 0),
           ATTR_TYPE_STR MAIL_ATTR_QUEUEID ''A1'',
           ATTR_TYPE_STR MAIL_ATTR_ORCPT ''rob@example.com'',
           ATTR_TYPE_STR MAIL_ATTR_RECIP ''bob@example.com'',
           ATTR_TYPE_LONG MAIL_ATTR_OFFSET 7,
           ATTR_TYPE_STR MAIL_ATTR_STATUS ''5.1.1'',
           ATTR_TYPE_STR MAIL_ATTR_ACTION ''failed'',
           ATTR_TYPE_STR MAIL_ATTR_WHY ''no such user'']]
   \<and> take 1 (new_calls []
        (vbounce_append (sample_env True all_up) 0 ''A1'' None ''bob@example.com'' 7 ''relay''
           ''5.1.1'' 99 ''no such user'' [] [])) =
       [Mail_command_client MAIL_CLASS_PRIVATE ''defer''
          [ATTR_TYPE_NUM MAIL_ATTR_NREQ (Cmd BOUNCE_CMD_APPEND),
           ATTR_TYPE_NUM MAIL_ATTR_FLAGS (Num 0),
           ATTR_TYPE_STR MAIL_ATTR_QUEUEID ''A1'',
           ATTR_TYPE_STR MAIL_ATTR_ORCPT [],
           ATTR_TYPE_STR MAIL_ATTR_RECIP ''bob@example.com'',
           ATTR_TYPE_LONG MAIL_ATTR_OFFSET 7,
           ATTR_TYPE_STR MAIL_ATTR_STATUS ''4.1.1'',
           ATTR_TYPE_STR MAIL_ATTR_ACTION ''delayed'',
           ATTR_TYPE_STR MAIL_ATTR_WHY ''no such user'']]"
  using append_primary_service [where e = "sample_env False all_up"
      and flags = 0 and id' = "''A1''" and orig_rcpt = "Some ''rob@example.com''"
      and recipient = "''bob@example.com''" and offset = 7 and relay = "''relay''"
      and dsn = "''5.1.1''" and entry = 99 and fmt = "''no such user''" and ap = "[]"
      and tr = "[]"]
    append_primary_service [where e = "sample_env True all_up"
      and flags = 0 and id' = "''A1''" and orig_rcpt = None
      and recipient = "''bob@example.com''" and offset = 7 and relay = "''relay''"
      and dsn = "''5.1.1''" and entry = 99 and fmt = "''no such user''" and ap = "[]"
      and tr = "[]"]
    sample_accepts [of False all_up] sample_accepts [of True all_up]
  by (simp add: working_dsn_def after_check_def)
    (simp add: sample_env_def)

subsection \<open>The soft-bounce short circuit of the append path\<close>

text \<open>
  Claim C5. With soft bounce enabled and CLEAN set (VERIFY and EXPAND unset),
  \<^verbatim>\<open>vbounce_append\<close> returns -1 at once: the history gains at most the warning of the
  sanity check, and no call to the bounce, defer, trace or verification service.
\<close>

theorem soft_bounce_clean_short_circuit:
  assumes "var_soft_bounce e" and "flags AND BOUNCE_FLAG_CLEAN e \<noteq> 0"
    and "flags AND DEL_REQ_FLAG_VERIFY e = 0" and "flags AND DEL_REQ_FLAG_EXPAND e = 0"
  shows "vbounce_append e flags id' orig_rcpt recipient offset relay dsn entry fmt ap tr =
           (- 1, after_check ''bounce_append'' e dsn tr)
         \<and> filter (\<lambda>c. \<not> is_diagnostic c)
             (new_calls tr (vbounce_append e flags id' orig_rcpt recipient offset relay dsn
                              entry fmt ap tr)) = []"
  using assms
  by (simp add: unfold_append vbounce_append_checked_def after_check_prefix)

theorem soft_bounce_clean_short_circuit_witness:
  "var_soft_bounce (sample_env True all_up)
   \<and> (1 :: c_int) AND BOUNCE_FLAG_CLEAN (sample_env True all_up) \<noteq> 0
   \<and> vbounce_append (sample_env True all_up) 1 ''A1'' None ''bob@example.com'' 7 ''relay''
       ''5.1.1'' 99 ''no such user'' [] [] = (- 1, [])"
  using soft_bounce_clean_short_circuit [where e = "sample_env True all_up"
      and flags = 1 and id' = "''A1''" and orig_rcpt = None
      and recipient = "''bob@example.com''" and offset = 7 and relay = "''relay''"
      and dsn = "''5.1.1''" and entry = 99 and fmt = "''no such user''" and ap = "[]"
      and tr = "[]"]
  by (simp add: sample_env_def after_check_def dsn_rejected_def deref_def sample_dsn_valid_def)

subsection \<open>vbounce\_one under soft bounce\<close>

text \<open>
  Claim C6. With soft bounce enabled (VERIFY and EXPAND unset), CLEAN set or not,
  \<^verbatim>\<open>vbounce_one\<close> returns what \<^verbatim>\<open>vbounce_append\<close> returns on the same flags, queue id,
  recipients, offset, relay, entry time and reason, with the status code as it left the
  sanity check; and the calls it adds contain no request for an immediate notice.
\<close>

theorem soft_bounce_one_delegates:
  assumes "var_soft_bounce e"
    and "flags AND DEL_REQ_FLAG_VERIFY e = 0" and "flags AND DEL_REQ_FLAG_EXPAND e = 0"
  shows "vbounce_one e flags queue id' encoding sender orig_rcpt recipient offset relay dsn
             entry fmt ap tr =
           vbounce_append e flags id' orig_rcpt recipient offset relay (working_dsn e dsn)
             entry fmt ap (after_check ''bounce_one'' e dsn tr)
       \<and> filter is_one_shot
           (new_calls tr (vbounce_one e flags queue id' encoding sender orig_rcpt recipient
                            offset relay dsn entry fmt ap tr)) = []"
proof -
  let ?tr = "after_check ''bounce_one'' e dsn tr"
  have eq: "vbounce_one e flags queue id' encoding sender orig_rcpt recipient offset relay dsn
             entry fmt ap tr =
           vbounce_append e flags id' orig_rcpt recipient offset relay (working_dsn e dsn)
             entry fmt ap ?tr"
    using assms by (simp add: unfold_one vbounce_one_checked_def)
  obtain xs where xs:
    "snd (vbounce_append e flags id' orig_rcpt recipient offset relay (working_dsn e dsn)
            entry fmt ap ?tr) = after_check ''bounce_append'' e (working_dsn e dsn) ?tr @ xs"
    "filter is_one_shot xs = []"
    using append_calls [of e flags id' orig_rcpt recipient offset relay "working_dsn e dsn"
        entry fmt ap ?tr] by blast
  have "filter is_one_shot
           (new_calls tr (vbounce_one e flags queue id' encoding sender orig_rcpt recipient
                            offset relay dsn entry fmt ap tr)) = []"
    unfolding eq new_calls_def xs(1) using xs(2) by (simp add: after_check_prefix)
  with eq show ?thesis by blast
qed

theorem soft_bounce_one_delegates_witness:
  "var_soft_bounce (sample_env True all_up)
   \<and> vbounce_one (sample_env True all_up) 1 ''incoming'' ''A1'' ''7bit'' ''alice'' None
       ''bob@example.com'' 7 ''relay'' ''5.1.1'' 99 ''no such user'' [] [] = (- 1, [])
   \<and> vbounce_one (sample_env True all_up) 0 ''incoming'' ''A1'' ''7bit'' ''alice'' None
       ''bob@example.com'' 7 ''relay'' ''9.9.9'' 99 ''no such user'' [] [] =
     (- 1, [Msg_warn ''bounce_one: ignoring dsn code \"%s\"'' [''9.9.9''],
            append_request ''defer'' 0 ''A1'' [] ''bob@example.com'' 7 ''4.0.0'' ''delayed''
              ''no such user'',
            Log_adhoc ''A1'' (Some []) ''bob@example.com'' ''relay'' ''4.0.0'' 99 ''SOFTBOUNCE''
              ''%s'' [''no such user'']])"
  using soft_bounce_one_delegates [where e = "sample_env True all_up"
      and flags = 1 and id' = "''A1''" and orig_rcpt = None
      and recipient = "''bob@example.com''" and offset = 7 and relay = "''relay''"
      and dsn = "''5.1.1''" and entry = 99 and fmt = "''no such user''" and ap = "[]"
      and tr = "[]" and queue = "''incoming''" and encoding = "''7bit''"
      and sender = "''alice''"]
    soft_bounce_one_delegates [where e = "sample_env True all_up"
      and flags = 0 and id' = "''A1''" and orig_rcpt = None
      and recipient = "''bob@example.com''" and offset = 7 and relay = "''relay''"
      and dsn = "''9.9.9''" and entry = 99 and fmt = "''no such user''" and ap = "[]"
      and tr = "[]" and queue = "''incoming''" and encoding = "''7bit''"
      and sender = "''alice''"]
    sample_accepts [of True all_up] sample_rejects [of True all_up]
    sample_accepts_default [of True all_up]
  by (simp add: working_dsn_def after_check_def unfold_append vbounce_append_checked_def)
    (simp add: sample_env_def all_up_def invoke_def emit_def Let_def null_to_empty_def
      set_class4_def)

subsection \<open>Success under soft bounce\<close>

text \<open>
  Claim C7. With soft bounce enabled, when the append request of \<^verbatim>\<open>vbounce_append\<close> is
  made (VERIFY, EXPAND and CLEAN unset) and succeeds, and the trace mirror succeeds when
  RECORD asks for it, the call returns -1 although the services reported success. It writes
  one adhoc log line, with status "SOFTBOUNCE" and the working status code with its class
  digit replaced by 4.
\<close>

theorem soft_bounce_success_not_final:
  assumes "var_soft_bounce e"
    and "flags AND DEL_REQ_FLAG_VERIFY e = 0" and "flags AND DEL_REQ_FLAG_EXPAND e = 0"
    and "flags AND BOUNCE_FLAG_CLEAN e = 0"
    and "respond e (after_check ''bounce_append'' e dsn tr)
           (append_primary e flags id' orig_rcpt recipient offset (working_dsn e dsn) fmt ap) = 0"
    and "flags AND DEL_REQ_FLAG_RECORD e = 0
         \<or> respond e
              (after_check ''bounce_append'' e dsn tr
                 @ [append_primary e flags id' orig_rcpt recipient offset (working_dsn e dsn)
                      fmt ap])
              (append_mirror e flags id' orig_rcpt recipient relay (working_dsn e dsn) entry
                 fmt ap) = 0"
  shows "fst (vbounce_append e flags id' orig_rcpt recipient offset relay dsn entry fmt ap tr)
           = - 1
       \<and> filter is_adhoc
           (new_calls tr (vbounce_append e flags id' orig_rcpt recipient offset relay dsn
                            entry fmt ap tr)) =
           [Log_adhoc id' (Some (null_to_empty orig_rcpt)) recipient relay
              (CHR ''4'' # tl (working_dsn e dsn)) entry ''SOFTBOUNCE'' ''%s''
              [vstring_vsprintf e fmt ap]]"
  using assms
  by (auto simp add: unfold_append append_normal Let_def after_check_prefix append_primary_def
      append_mirror_def append_adhoc_def append_request_def set_class4_working_dsn)

theorem soft_bounce_success_not_final_witness:
  "var_soft_bounce (sample_env True all_up)
   \<and> (0x400 :: c_int) AND DEL_REQ_FLAG_VERIFY (sample_env True all_up) = 0
   \<and> (0x400 :: c_int) AND DEL_REQ_FLAG_EXPAND (sample_env True all_up) = 0
   \<and> (0x400 :: c_int) AND BOUNCE_FLAG_CLEAN (sample_env True all_up) = 0
   \<and> respond (sample_env True all_up) []
        (append_primary (sample_env True all_up) 0x400 ''A1'' None ''bob@example.com'' 7
           ''5.1.1'' ''no such user'' []) = 0
   \<and> vbounce_append (sample_env True all_up) 0x400 ''A1'' None ''bob@example.com'' 7 ''relay''
       ''5.1.1'' 99 ''no such user'' [] [] =
     (- 1, [append_request ''defer'' 0x400 ''A1'' [] ''bob@example.com'' 7 ''4.1.1'' ''delayed''
              ''no such user'',
            Trace_append 0x400 ''A1'' (Some []) ''bob@example.com'' ''relay'' ''4.1.1'' 99
              ''delayed'' ''%s'' [''no such user''],
            Log_adhoc ''A1'' (Some []) ''bob@example.com'' ''relay'' ''4.1.1'' 99 ''SOFTBOUNCE''
              ''%s'' [''no such user'']])"
  using soft_bounce_success_not_final [where e = "sample_env True all_up"
      and flags = "0x400" and id' = "''A1''" and orig_rcpt = None
      and recipient = "''bob@example.com''" and offset = 7 and relay = "''relay''"
      and dsn = "''5.1.1''" and entry = 99 and fmt = "''no such user''" and ap = "[]"
      and tr = "[]"]
  by (simp add: vbounce_append_def vbounce_append_checked_def append_request_def deref_def
      sample_env_def sample_dsn_valid_def all_up_def invoke_def emit_def Let_def
      null_to_empty_def set_class4_def)

subsection \<open>The defer fallback\<close>

text \<open>
  Claim C8. When the primary request of \<^verbatim>\<open>vbounce_append\<close>, or of the immediate-notice
  branch of \<^verbatim>\<open>vbounce_one\<close>, fails (RECORD set or not): with CLEAN unset the next call
  is the defer log append, with the class digit of the working status code set to 4 and the
  reason "%s or %s service failure" over the bounce and trace service names, and the call
  returns the status of that append; with CLEAN set there is no defer log append and the
  call returns -1.
\<close>

theorem primary_failure_defer_fallback:
  assumes "flags AND DEL_REQ_FLAG_VERIFY e = 0" and "flags AND DEL_REQ_FLAG_EXPAND e = 0"
  shows "(respond e (after_check ''bounce_append'' e dsn tr)
            (append_primary e flags id' orig_rcpt recipient offset (working_dsn e dsn) fmt ap)
            \<noteq> 0 \<longrightarrow>
          (flags AND BOUNCE_FLAG_CLEAN e = 0 \<longrightarrow>
             vbounce_append e flags id' orig_rcpt recipient offset relay dsn entry fmt ap tr =
               invoke e
                 (Defer_append flags id' (Some (null_to_empty orig_rcpt)) recipient offset relay
                    (CHR ''4'' # tl (working_dsn e dsn)) entry ''%s or %s service failure''
                    [var_bounce_service e, var_trace_service e])
                 (after_check ''bounce_append'' e dsn tr
                    @ [append_primary e flags id' orig_rcpt recipient offset
                         (working_dsn e dsn) fmt ap]))
          \<and> (flags AND BOUNCE_FLAG_CLEAN e \<noteq> 0 \<longrightarrow>
               fst (vbounce_append e flags id' orig_rcpt recipient offset relay dsn entry
                      fmt ap tr) = - 1
               \<and> filter is_defer
                   (new_calls tr (vbounce_append e flags id' orig_rcpt recipient offset relay
                                    dsn entry fmt ap tr)) = []))
       \<and> (\<not> var_soft_bounce e
          \<and> respond e (after_check ''bounce_one'' e dsn tr)
              (one_primary e flags queue id' encoding sender orig_rcpt recipient offset
                 (working_dsn e dsn) fmt ap) \<noteq> 0 \<longrightarrow>
          (flags AND BOUNCE_FLAG_CLEAN e = 0 \<longrightarrow>
             vbounce_one e flags queue id' encoding sender orig_rcpt recipient offset relay dsn
                 entry fmt ap tr =
               invoke e
                 (Defer_append flags id' (Some (null_to_empty orig_rcpt)) recipient offset relay
                    (CHR ''4'' # tl (working_dsn e dsn)) entry ''%s or %s service failure''
                    [var_bounce_service e, var_trace_service e])
                 (after_check ''bounce_one'' e dsn tr
                    @ [one_primary e flags queue id' encoding sender orig_rcpt recipient offset
                         (working_dsn e dsn) fmt ap]))
          \<and> (flags AND BOUNCE_FLAG_CLEAN e \<noteq> 0 \<longrightarrow>
               fst (vbounce_one e flags queue id' encoding sender orig_rcpt recipient offset
                      relay dsn entry fmt ap tr) = - 1
               \<and> filter is_defer
                   (new_calls tr (vbounce_one e flags queue id' encoding sender orig_rcpt
                                    recipient offset relay dsn entry fmt ap tr)) = []))"
proof -
  have a1: "respond e (after_check ''bounce_append'' e dsn tr)
            (append_primary e flags id' orig_rcpt recipient offset (working_dsn e dsn) fmt ap)
            \<noteq> 0 \<Longrightarrow> flags AND BOUNCE_FLAG_CLEAN e = 0 \<Longrightarrow>
             vbounce_append e flags id' orig_rcpt recipient offset relay dsn entry fmt ap tr =
               invoke e
                 (Defer_append flags id' (Some (null_to_empty orig_rcpt)) recipient offset relay
                    (CHR ''4'' # tl (working_dsn e dsn)) entry ''%s or %s service failure''
                    [var_bounce_service e, var_trace_service e])
                 (after_check ''bounce_append'' e dsn tr
                    @ [append_primary e flags id' orig_rcpt recipient offset
                         (working_dsn e dsn) fmt ap])"
    using assms
    by (simp add: unfold_append append_normal Let_def invoke_def defer_fallback_def
        set_class4_working_dsn)
  have a2: "flags AND BOUNCE_FLAG_CLEAN e \<noteq> 0 \<Longrightarrow> var_soft_bounce e \<Longrightarrow>
               fst (vbounce_append e flags id' orig_rcpt recipient offset relay dsn entry
                      fmt ap tr) = - 1
               \<and> filter is_defer
                   (new_calls tr (vbounce_append e flags id' orig_rcpt recipient offset relay
                                    dsn entry fmt ap tr)) = []"
    using assms
    by (simp add: unfold_append vbounce_append_checked_def after_check_prefix)
  have a3: "respond e (after_check ''bounce_append'' e dsn tr)
            (append_primary e flags id' orig_rcpt recipient offset (working_dsn e dsn) fmt ap)
            \<noteq> 0 \<Longrightarrow> flags AND BOUNCE_FLAG_CLEAN e \<noteq> 0 \<Longrightarrow> \<not> var_soft_bounce e \<Longrightarrow>
               fst (vbounce_append e flags id' orig_rcpt recipient offset relay dsn entry
                      fmt ap tr) = - 1
               \<and> filter is_defer
                   (new_calls tr (vbounce_append e flags id' orig_rcpt recipient offset relay
                                    dsn entry fmt ap tr)) = []"
    using assms
    by (simp add: unfold_append append_normal Let_def after_check_prefix append_primary_def
        append_request_def)
  have b1: "\<not> var_soft_bounce e \<Longrightarrow>
          respond e (after_check ''bounce_one'' e dsn tr)
              (one_primary e flags queue id' encoding sender orig_rcpt recipient offset
                 (working_dsn e dsn) fmt ap) \<noteq> 0 \<Longrightarrow> flags AND BOUNCE_FLAG_CLEAN e = 0 \<Longrightarrow>
             vbounce_one e flags queue id' encoding sender orig_rcpt recipient offset relay dsn
                 entry fmt ap tr =
               invoke e
                 (Defer_append flags id' (Some (null_to_empty orig_rcpt)) recipient offset relay
                    (CHR ''4'' # tl (working_dsn e dsn)) entry ''%s or %s service failure''
                    [var_bounce_service e, var_trace_service e])
                 (after_check ''bounce_one'' e dsn tr
                    @ [one_primary e flags queue id' encoding sender orig_rcpt recipient offset
                         (working_dsn e dsn) fmt ap])"
    using assms
    by (simp add: unfold_one one_normal Let_def invoke_def defer_fallback_def
        set_class4_working_dsn)
  have b2: "\<not> var_soft_bounce e \<Longrightarrow>
          respond e (after_check ''bounce_one'' e dsn tr)
              (one_primary e flags queue id' encoding sender orig_rcpt recipient offset
                 (working_dsn e dsn) fmt ap) \<noteq> 0 \<Longrightarrow> flags AND BOUNCE_FLAG_CLEAN e \<noteq> 0 \<Longrightarrow>
               fst (vbounce_one e flags queue id' encoding sender orig_rcpt recipient offset
                      relay dsn entry fmt ap tr) = - 1
               \<and> filter is_defer
                   (new_calls tr (vbounce_one e flags queue id' encoding sender orig_rcpt
                                    recipient offset relay dsn entry fmt ap tr)) = []"
    using assms
    by (simp add: unfold_one one_normal Let_def after_check_prefix one_primary_def
        one_request_def)
  from a1 a2 a3 b1 b2 show ?thesis by blast
qed

theorem primary_failure_defer_fallback_witness:
  "(0 :: c_int) AND DEL_REQ_FLAG_VERIFY (sample_env False requests_fail) = 0
   \<and> (0 :: c_int) AND DEL_REQ_FLAG_EXPAND (sample_env False requests_fail) = 0
   \<and> respond (sample_env False requests_fail) []
        (append_primary (sample_env False requests_fail) 0 ''A1'' None ''bob@example.com'' 7
           ''5.1.1'' ''no such user'' []) \<noteq> 0
   \<and> vbounce_append (sample_env False requests_fail) 0 ''A1'' None ''bob@example.com'' 7
       ''relay'' ''5.1.1'' 99 ''no such user'' [] [] =
     (0, [append_request ''bounce'' 0 ''A1'' [] ''bob@example.com'' 7 ''5.1.1'' ''failed''
            ''no such user'',
          Defer_append 0 ''A1'' (Some []) ''bob@example.com'' 7 ''relay'' ''4.1.1'' 99
            ''%s or %s service failure'' [''bounce'', ''trace'']])
   \<and> fst (vbounce_one (sample_env False requests_fail) 1 ''incoming'' ''A1'' ''7bit'' ''alice''
            None ''bob@example.com'' 7 ''relay'' ''5.1.1'' 99 ''no such user'' [] []) = - 1"
  using primary_failure_defer_fallback [where e = "sample_env False requests_fail"
      and flags = 0 and id' = "''A1''" and orig_rcpt = None
      and recipient = "''bob@example.com''" and offset = 7 and relay = "''relay''"
      and dsn = "''5.1.1''" and entry = 99 and fmt = "''no such user''" and ap = "[]"
      and tr = "[]" and queue = "''incoming''" and encoding = "''7bit''"
      and sender = "''alice''"]
    primary_failure_defer_fallback [where e = "sample_env False requests_fail"
      and flags = 1 and id' = "''A1''" and orig_rcpt = None
      and recipient = "''bob@example.com''" and offset = 7 and relay = "''relay''"
      and dsn = "''5.1.1''" and entry = 99 and fmt = "''no such user''" and ap = "[]"
      and tr = "[]" and queue = "''incoming''" and encoding = "''7bit''"
      and sender = "''alice''"]
    sample_accepts [of False requests_fail]
  by (simp add: working_dsn_def after_check_def invoke_def)
    (simp add: sample_env_def requests_fail_def append_primary_def one_primary_def
      append_request_def one_request_def null_to_empty_def)

subsection \<open>bounce\_flush\<close>

text \<open>
  Claim C9. With soft bounce enabled \<^verbatim>\<open>bounce_flush\<close> returns -1 and the history is
  unchanged: the bounce service is not contacted. With soft bounce disabled and a flush
  request that does not succeed it returns -1 as well, and the "deferred" diagnostic
  follows the request exactly when CLEAN is unset.
\<close>

theorem bounce_flush_failure:
  "(var_soft_bounce e \<longrightarrow> bounce_flush e flags queue id' encoding sender tr = (- 1, tr))
   \<and> (\<not> var_soft_bounce e
        \<and> respond e tr (flush_request (var_bounce_service e) flags queue id' encoding sender) \<noteq> 0
      \<longrightarrow> bounce_flush e flags queue id' encoding sender tr =
            (- 1, tr @ flush_request (var_bounce_service e) flags queue id' encoding sender
                     # (if flags AND BOUNCE_FLAG_CLEAN e = 0
                        then [Msg_info ''%s: status=deferred (bounce failed)'' [id']] else [])))"
  by (simp add: bounce_flush_def invoke_def emit_def)

theorem bounce_flush_failure_witness:
  "bounce_flush (sample_env True all_up) 0 ''incoming'' ''A1'' ''7bit'' ''alice'' [] = (- 1, [])
   \<and> bounce_flush (sample_env False requests_fail) 0 ''incoming'' ''A1'' ''7bit'' ''alice'' [] =
       (- 1, [flush_request ''bounce'' 0 ''incoming'' ''A1'' ''7bit'' ''alice'',
              Msg_info ''%s: status=deferred (bounce failed)'' [''A1'']])
   \<and> bounce_flush (sample_env False requests_fail) 1 ''incoming'' ''A1'' ''7bit'' ''alice'' [] =
       (- 1, [flush_request ''bounce'' 1 ''incoming'' ''A1'' ''7bit'' ''alice''])"
  using bounce_flush_failure [where e = "sample_env True all_up" and flags = 0
      and queue = "''incoming''" and id' = "''A1''" and encoding = "''7bit''"
      and sender = "''alice''" and tr = "[]"]
    bounce_flush_failure [where e = "sample_env False requests_fail" and flags = 0
      and queue = "''incoming''" and id' = "''A1''" and encoding = "''7bit''"
      and sender = "''alice''" and tr = "[]"]
    bounce_flush_failure [where e = "sample_env False requests_fail" and flags = 1
      and queue = "''incoming''" and id' = "''A1''" and encoding = "''7bit''"
      and sender = "''alice''" and tr = "[]"]
  by (simp add: sample_env_def requests_fail_def flush_request_def)

subsection \<open>The immediate notice\<close>

text \<open>
  Claim C10. When \<^verbatim>\<open>vbounce_one\<close> reaches its last branch (VERIFY and EXPAND unset, soft
  bounce disabled) the store \<^verbatim>\<open>my_dsn[0] = '4'\<close> guarded by soft bounce inside that branch
  never runs. The working status code has class digit 5. The first call after the sanity
  check, and the only \<^verbatim>\<open>mail_command_client\<close> call, is the one-recipient request to the
  bounce service whose status attribute is that code and whose action attribute is "failed".
  A trace mirror, made exactly when the request succeeded and RECORD is set, carries the
  same code and action. On success of the request and of any mirror the single adhoc log
  line has status "bounced" and the same code, and the call returns 0.
\<close>

theorem one_shot_sends_sanitized_failed:
  assumes "flags AND DEL_REQ_FLAG_VERIFY e = 0" and "flags AND DEL_REQ_FLAG_EXPAND e = 0"
    and "\<not> var_soft_bounce e"
  shows "(let tr' = after_check ''bounce_one'' e dsn tr;
              d = working_dsn e dsn;
              why = vstring_vsprintf e fmt ap;
              orig = (case orig_rcpt of None \<Rightarrow> [] | Some r \<Rightarrow> r);
              r = vbounce_one e flags queue id' encoding sender orig_rcpt recipient offset
                    relay dsn entry fmt ap tr;
              P = Mail_command_client MAIL_CLASS_PRIVATE (var_bounce_service e)
                    [ATTR_TYPE_NUM MAIL_ATTR_NREQ (Cmd BOUNCE_CMD_ONE),
                     ATTR_TYPE_NUM MAIL_ATTR_FLAGS (Num flags),
                     ATTR_TYPE_STR MAIL_ATTR_QUEUE queue,
                     ATTR_TYPE_STR MAIL_ATTR_QUEUEID id',
                     ATTR_TYPE_STR MAIL_ATTR_ENCODING encoding,
                     ATTR_TYPE_STR MAIL_ATTR_SENDER sender,
                     ATTR_TYPE_STR MAIL_ATTR_ORCPT orig,
                     ATTR_TYPE_STR MAIL_ATTR_RECIP recipient,
                     ATTR_TYPE_LONG MAIL_ATTR_OFFSET offset,
                     ATTR_TYPE_STR MAIL_ATTR_STATUS d,
                     ATTR_TYPE_STR MAIL_ATTR_ACTION ''failed'',
                     ATTR_TYPE_STR MAIL_ATTR_WHY why];
              M = Trace_append flags id' (Some orig) recipient relay d entry ''failed'' ''%s''
                    [why];
              L = Log_adhoc id' (Some orig) recipient relay d entry ''bounced'' ''%s'' [why];
              success = (respond e tr' P = 0
                         \<and> (flags AND DEL_REQ_FLAG_RECORD e = 0
                            \<or> respond e (tr' @ [P]) M = 0))
          in deref d = CHR ''5''
             \<and> take 1 (new_calls tr' r) = [P]
             \<and> filter is_request (new_calls tr' r) = [P]
             \<and> filter is_mirror (new_calls tr' r) =
                 (if respond e tr' P = 0 \<and> flags AND DEL_REQ_FLAG_RECORD e \<noteq> 0
                  then [M] else [])
             \<and> filter is_adhoc (new_calls tr' r) = (if success then [L] else [])
             \<and> (success \<longrightarrow> fst r = 0))"
  using assms
  by (auto simp add: unfold_one one_normal Let_def deref_working_dsn one_primary_def
      one_mirror_def one_adhoc_def defer_fallback_def one_request_def null_to_empty_def)

theorem one_shot_sends_sanitized_failed_witness:
  "\<not> var_soft_bounce (sample_env False all_up)
   \<and> (0x400 :: c_int) AND DEL_REQ_FLAG_VERIFY (sample_env False all_up) = 0
   \<and> (0x400 :: c_int) AND DEL_REQ_FLAG_EXPAND (sample_env False all_up) = 0
   \<and> vbounce_one (sample_env False all_up) 0x400 ''incoming'' ''A1'' ''7bit'' ''alice''
          (Some ''rob@example.com'') ''bob@example.com'' 7 ''relay'' ''5.1.1'' 99
          ''no such user'' [] [] =
     (0, [Mail_command_client MAIL_CLASS_PRIVATE ''bounce''
            [ATTR_TYPE_NUM MAIL_ATTR_NREQ (Cmd BOUNCE_CMD_ONE),
             ATTR_TYPE_NUM MAIL_ATTR_FLAGS (Num 0x400),
             ATTR_TYPE_STR MAIL_ATTR_QUEUE ''incoming'',
             ATTR_TYPE_STR MAIL_ATTR_QUEUEID ''A1'',
             ATTR_TYPE_STR MAIL_ATTR_ENCODING ''7bit'',
             ATTR_TYPE_STR MAIL_ATTR_SENDER ''alice'',
             ATTR_TYPE_STR MAIL_ATTR_ORCPT ''rob@example.com'',
             ATTR_TYPE_STR MAIL_ATTR_RECIP ''bob@example.com'',
             ATTR_TYPE_LONG MAIL_ATTR_OFFSET 7,
             ATTR_TYPE_STR MAIL_ATTR_STATUS ''5.1.1'',
             ATTR_TYPE_STR MAIL_ATTR_ACTION ''failed'',
             ATTR_TYPE_STR MAIL_ATTR_WHY ''no such user''],
          Trace_append 0x400 ''A1'' (Some ''rob@example.com'') ''bob@example.com'' ''relay''
            ''5.1.1'' 99 ''failed'' ''%s'' [''no such user''],
          Log_adhoc ''A1'' (Some ''rob@example.com'') ''bob@example.com'' ''relay'' ''5.1.1'' 99
            ''bounced'' ''%s'' [''no such user'']])
   \<and> vbounce_one (sample_env False all_up) 0 ''incoming'' ''A1'' ''7bit'' ''alice''
          None ''bob@example.com'' 7 ''relay'' ''9.9.9'' 99 ''no such user'' [] [] =
     (0, [Msg_warn ''bounce_one: ignoring dsn code \"%s\"'' [''9.9.9''],
          Mail_command_client MAIL_CLASS_PRIVATE ''bounce''
            [ATTR_TYPE_NUM MAIL_ATTR_NREQ (Cmd BOUNCE_CMD_ONE),
             ATTR_TYPE_NUM MAIL_ATTR_FLAGS (Num 0),
             ATTR_TYPE_STR MAIL_ATTR_QUEUE ''incoming'',
             ATTR_TYPE_STR MAIL_ATTR_QUEUEID ''A1'',
             ATTR_TYPE_STR MAIL_ATTR_ENCODING ''7bit'',
             ATTR_TYPE_STR MAIL_ATTR_SENDER ''alice'',
             ATTR_TYPE_STR MAIL_ATTR_ORCPT [],
             ATTR_TYPE_STR MAIL_ATTR_RECIP ''bob@example.com'',
             ATTR_TYPE_LONG MAIL_ATTR_OFFSET 7,
             ATTR_TYPE_STR MAIL_ATTR_STATUS ''5.0.0'',
             ATTR_TYPE_STR MAIL_ATTR_ACTION ''failed'',
             ATTR_TYPE_STR MAIL_ATTR_WHY ''no such user''],
          Log_adhoc ''A1'' (Some []) ''bob@example.com'' ''relay'' ''5.0.0'' 99
            ''bounced'' ''%s'' [''no such user'']])"
  using one_shot_sends_sanitized_failed [where e = "sample_env False all_up"
      and flags = "0x400" and id' = "''A1''" and orig_rcpt = "Some ''rob@example.com''"
      and recipient = "''bob@example.com''" and offset = 7 and relay = "''relay''"
      and dsn = "''5.1.1''" and entry = 99 and fmt = "''no such user''" and ap = "[]"
      and tr = "[]" and queue = "''incoming''" and encoding = "''7bit''"
      and sender = "''alice''"]
    one_shot_sends_sanitized_failed [where e = "sample_env False all_up"
      and flags = 0 and id' = "''A1''" and orig_rcpt = None
      and recipient = "''bob@example.com''" and offset = 7 and relay = "''relay''"
      and dsn = "''9.9.9''" and entry = 99 and fmt = "''no such user''" and ap = "[]"
      and tr = "[]" and queue = "''incoming''" and encoding = "''7bit''"
      and sender = "''alice''"]
  by (simp add: vbounce_one_def vbounce_one_checked_def one_request_def deref_def
      sample_env_def sample_dsn_valid_def all_up_def invoke_def emit_def Let_def
      null_to_empty_def)

end
